theory Spec2Isabelle
  imports Main
begin

section \<open>Strings and statically evaluated values\<close>

text \<open>
  Source strings are modelled as \<open>string\<close>, one \<open>char\<close> per character, which covers the
  characters up to U+00FF. \<open>String.prototype.trim\<close> strips white space and line terminators
  from both ends; within that range these are the seven characters below.
\<close>

definition isWhiteSpace :: "char \<Rightarrow> bool" where
  "isWhiteSpace ch =
     (ch = CHR 0x09 \<or> ch = CHR 0x0A \<or> ch = CHR 0x0B \<or> ch = CHR 0x0C \<or> ch = CHR 0x0D \<or>
      ch = CHR 0x20 \<or> ch = CHR 0xA0)"

definition trim :: "string \<Rightarrow> string" where
  "trim s = rev (dropWhile isWhiteSpace (rev (dropWhile isWhiteSpace s)))"

text \<open>\<open>s.indexOf(sub) >= 0\<close>: \<open>sub\<close> occurs in \<open>s\<close> as a contiguous run.\<close>

fun indexOf_found :: "string \<Rightarrow> string \<Rightarrow> bool" where
  "indexOf_found [] sub = (sub = [])"
| "indexOf_found (x # xs) sub = (take (length sub) (x # xs) = sub \<or> indexOf_found xs sub)"

text \<open>
  What the host's static evaluation of an expression can yield. \<open>JObject\<close> stands for any
  value that is not a primitive (arrays, objects, regular expressions).
\<close>

datatype jsval = JString string | JNumber int | JBoolean bool | JNull | JUndefined | JObject

section \<open>Tree nodes\<close>

text \<open>
  The node kinds the plugin looks at. \<open>TemplateLiteral\<close> and \<open>Expression\<close> carry a number
  that identifies the expression to the host's evaluator; \<open>NoNode\<close> is the path whose node is
  \<open>null\<close> (the value of an attribute written without one, as in \<open><T s />\<close>).
\<close>

datatype node =
    StringLiteral string
  | NumericLiteral int
  | BooleanLiteral bool
  | NullLiteral
  | TemplateLiteral nat
  | Identifier string
  | JSXIdentifier string
  | JSXNamespacedName string string
  | JSXMemberExpression string string
  | JSXExpressionContainer node
  | Expression nat
  | NoNode

fun isIdentifier :: "node \<Rightarrow> bool" where
  "isIdentifier (Identifier n) = True"
| "isIdentifier other = False"

fun isJSXIdentifier :: "node \<Rightarrow> bool" where
  "isJSXIdentifier (JSXIdentifier n) = True"
| "isJSXIdentifier other = False"

fun isJSXExpressionContainer :: "node \<Rightarrow> bool" where
  "isJSXExpressionContainer (JSXExpressionContainer e) = True"
| "isJSXExpressionContainer other = False"

fun isLiteral :: "node \<Rightarrow> bool" where
  "isLiteral (StringLiteral s) = True"
| "isLiteral (NumericLiteral n) = True"
| "isLiteral (BooleanLiteral b) = True"
| "isLiteral NullLiteral = True"
| "isLiteral (TemplateLiteral k) = True"
| "isLiteral other = False"

text \<open>
  The \<open>name\<close> property of a node: a string for the two identifier kinds, a node object for
  a namespaced name, and \<open>undefined\<close> for every other kind.
\<close>

fun node_name :: "node \<Rightarrow> jsval" where
  "node_name (Identifier n) = JString n"
| "node_name (JSXIdentifier n) = JString n"
| "node_name (JSXNamespacedName ns n) = JObject"
| "node_name other = JUndefined"

text \<open>\<open>path.get('expression')\<close> of an expression container.\<close>

fun get_expression :: "node \<Rightarrow> node" where
  "get_expression (JSXExpressionContainer e) = e"
| "get_expression other = NoNode"

record SourceLocation =
  start_line :: nat
  start_column :: nat
  end_line :: nat
  end_column :: nat

datatype attribute = JSXAttribute node node | JSXSpreadAttribute node

fun isJSXAttribute :: "attribute \<Rightarrow> bool" where
  "isJSXAttribute (JSXAttribute k v) = True"
| "isJSXAttribute (JSXSpreadAttribute e) = False"

text \<open>
  An opening element and a call expression, each with its source location and the
  \<open>EXTRACTED_TAG\<close> property that \<open>tagAsExtracted\<close> sets on the node.
\<close>

record opening_element =
  el_name :: node
  el_attributes :: "attribute list"
  el_loc :: SourceLocation
  el_extracted :: bool

record call_expression =
  call_callee :: node
  call_arguments :: "node list"
  call_loc :: SourceLocation
  call_extracted :: bool

section \<open>Errors, catalog entries and the per-unit state\<close>

text \<open>
  Every \<open>throw\<close> of the source is a value of \<open>error\<close>:
  \<^item> \<open>StaticEvaluationFailure\<close>: "Messages must be statically evaluate-able for extraction."
  \<^item> \<open>TypeError\<close>: the run-time error of calling a method on a value that lacks it
    (\<open>.trim()\<close> on a non-string, a method of an absent argument path);
  \<^item> \<open>EscapeSyntaxError\<close>: "Message failed to parse. It looks like backslashes were used
    for escaping, this won't work with JSX string literals. Wrap with {}.";
  \<^item> \<open>MessageSyntaxError d\<close>: "Message failed to parse." followed by the parser's diagnostic \<open>d\<close>;
  \<^item> \<open>MissingRequiredField\<close>: "Message Descriptors require an id and defaultMessage.";
  \<^item> \<open>DuplicateIdConflict i\<close>: "Duplicate message id: i, but the description and/or
    defaultMessage are different.";
  \<^item> \<open>MissingDescription\<close>: "Message must have a description."
\<close>

datatype error =
    StaticEvaluationFailure
  | TypeError
  | EscapeSyntaxError
  | MessageSyntaxError string
  | MissingRequiredField
  | DuplicateIdConflict string
  | MissingDescription

text \<open>The warning logged for a \<open>FormattedPlural\<close> element, with the element's line.\<close>

datatype warning = FormattedPluralWarning nat

text \<open>
  A stored message: \<open>{id, description, defaultMessage, ...loc}\<close>, where \<open>loc\<close> is the
  file name with the node's location, or absent.
\<close>

record entry =
  e_id :: string
  e_description :: "string option"
  e_defaultMessage :: string
  e_loc :: "(string \<times> SourceLocation) option"

text \<open>The descriptor \<open>{id, description, defaultMessage, c}\<close> handed to \<open>storeMessage\<close>.\<close>

record descriptor =
  d_id :: "string option"
  d_description :: "string option"
  d_defaultMessage :: "string option"
  d_c :: "string option"

record opts =
  moduleSourceName :: "string option"
  enforceDescriptions :: bool
  extractSourceLocation :: bool
  messagesDir :: "string option"

datatype fs_op = Mkdirp string | WriteFile string string

text \<open>
  The state a callback works on: the options, the file's name and base name, the
  \<open>reactIntl.messages\<close> map (an association list in insertion order), the warnings logged,
  the file's \<open>metadata['react-intl'].messages\<close>, and the file-system calls made so far.
\<close>

record state =
  st_opts :: opts
  file_filename :: string
  file_basename :: string
  messages :: "(string \<times> entry) list"
  log_warn :: "warning list"
  metadata :: "entry list option"
  fs_calls :: "fs_op list"

text \<open>
  What the plugin consumes and does not implement: Babel's static evaluation (\<open>Some v\<close>
  when confident) and import resolution, the message printer imported from
  \<open>./print-icu-message\<close> (\<open>Inl d\<close> when parsing throws \<open>d\<close>), Node's \<open>path\<close> functions, the
  working directory, and \<open>JSON.stringify\<close> with its indentation argument.
\<close>

record host =
  evaluate :: "node \<Rightarrow> jsval option"
  path_referencesImport :: "node \<Rightarrow> string \<Rightarrow> string \<Rightarrow> bool"
  printICUMessage :: "string \<Rightarrow> string + string"
  p_relative :: "string \<Rightarrow> string \<Rightarrow> string"
  p_join :: "string list \<Rightarrow> string"
  p_dirname :: "string \<Rightarrow> string"
  p_sep :: string
  process_cwd :: string
  JSON_stringify :: "entry list \<Rightarrow> nat \<Rightarrow> string"

section \<open>Insertion-ordered maps\<close>

text \<open>
  \<open>Map.prototype.set\<close> and property assignment on an object with string keys: an existing
  key keeps its position and takes the new value, a new key goes to the end.
\<close>

fun Map_set :: "('k \<times> 'v) list \<Rightarrow> 'k \<Rightarrow> 'v \<Rightarrow> ('k \<times> 'v) list" where
  "Map_set [] k v = [(k, v)]"
| "Map_set ((k', v') # m) k v = (if k' = k then (k, v) # m else (k', v') # Map_set m k v)"

definition Map_get :: "('k \<times> 'v) list \<Rightarrow> 'k \<Rightarrow> 'v option" where
  "Map_get m k = map_of m k"

definition Map_values :: "('k \<times> 'v) list \<Rightarrow> 'v list" where
  "Map_values m = map snd m"

section \<open>The plugin's functions\<close>

definition COMPONENT_NAMES :: "string list" where
  "COMPONENT_NAMES = []"

definition COMPONENT_NAME :: string where
  "COMPONENT_NAME = ''T''"

definition MESSAGE_PROPERTY :: string where
  "MESSAGE_PROPERTY = ''s''"

definition COMMENT_PROPERTY :: string where
  "COMMENT_PROPERTY = ''c''"

definition DESCRIPTOR_PROPS :: "string list" where
  "DESCRIPTOR_PROPS = [''id'', ''description'', ''defaultMessage'']"

text \<open>Truthiness of a value that is a string or \<open>undefined\<close>.\<close>

fun truthy :: "string option \<Rightarrow> bool" where
  "truthy None = False"
| "truthy (Some s) = (s \<noteq> [])"

definition getModuleSourceName :: "opts \<Rightarrow> string" where
  "getModuleSourceName os =
     (case moduleSourceName os of
        None \<Rightarrow> ''react-intl''
      | Some m \<Rightarrow> if m = [] then ''react-intl'' else m)"

definition evaluatePath :: "host \<Rightarrow> node \<Rightarrow> error + jsval" where
  "evaluatePath h path =
     (case evaluate h path of
        Some v \<Rightarrow> Inr v
      | None \<Rightarrow> Inl StaticEvaluationFailure)"

definition getMessageDescriptorKey :: "host \<Rightarrow> node \<Rightarrow> error + jsval" where
  "getMessageDescriptorKey h path =
     (if isIdentifier path \<or> isJSXIdentifier path then Inr (node_name path)
      else evaluatePath h path)"

text \<open>\<open>v.trim()\<close> on an evaluated value: only a string has the method.\<close>

fun js_trim :: "jsval \<Rightarrow> error + string" where
  "js_trim (JString s) = Inr (trim s)"
| "js_trim other = Inl TypeError"

definition getMessageDescriptorValue :: "host \<Rightarrow> node \<Rightarrow> error + string" where
  "getMessageDescriptorValue h path =
     (case evaluatePath h (if isJSXExpressionContainer path then get_expression path else path) of
        Inl e \<Rightarrow> Inl e
      | Inr v \<Rightarrow> js_trim v)"

definition getICUMessageValue :: "host \<Rightarrow> node \<Rightarrow> bool \<Rightarrow> error + string" where
  "getICUMessageValue h messagePath isJSXSource =
     (case getMessageDescriptorValue h messagePath of
        Inl e \<Rightarrow> Inl e
      | Inr message \<Rightarrow>
          (case printICUMessage h message of
             Inr printed \<Rightarrow> Inr printed
           | Inl parseError \<Rightarrow>
               if isJSXSource \<and> isLiteral messagePath \<and>
                  indexOf_found message [CHR 0x5C, CHR 0x5C]
               then Inl EscapeSyntaxError
               else Inl (MessageSyntaxError parseError)))"

text \<open>
  The body of the \<open>reduce\<close> in \<open>createMessageDescriptor\<close>: the raw descriptor \<open>hash\<close> is
  an object from property names to value paths, in the order the properties were first set.
\<close>

definition createMessageDescriptor_step ::
  "host \<Rightarrow> bool \<Rightarrow> (string \<times> node) list \<Rightarrow> node \<times> node \<Rightarrow> error + (string \<times> node) list" where
  "createMessageDescriptor_step h isTComp hash kv =
     (case getMessageDescriptorKey h (fst kv) of
        Inl e \<Rightarrow> Inl e
      | Inr key \<Rightarrow>
          if isTComp then
            (if key = JString MESSAGE_PROPERTY
             then Inr (Map_set (Map_set hash ''id'' (snd kv)) ''defaultMessage'' (snd kv))
             else if key = JString COMMENT_PROPERTY
             then Inr (Map_set hash COMMENT_PROPERTY (snd kv))
             else Inr hash)
          else
            (case key of
               JString k \<Rightarrow> if k \<in> set DESCRIPTOR_PROPS then Inr (Map_set hash k (snd kv)) else Inr hash
             | other \<Rightarrow> Inr hash))"

fun reduce_hash ::
  "host \<Rightarrow> bool \<Rightarrow> (string \<times> node) list \<Rightarrow> (node \<times> node) list \<Rightarrow> error + (string \<times> node) list" where
  "reduce_hash h isTComp hash [] = Inr hash"
| "reduce_hash h isTComp hash (kv # rest) =
     (case createMessageDescriptor_step h isTComp hash kv of
        Inl e \<Rightarrow> Inl e
      | Inr hash' \<Rightarrow> reduce_hash h isTComp hash' rest)"

definition createMessageDescriptor ::
  "host \<Rightarrow> (node \<times> node) list \<Rightarrow> bool \<Rightarrow> error + (string \<times> node) list" where
  "createMessageDescriptor h propPaths isTComp = reduce_hash h isTComp [] propPaths"

text \<open>
  \<open>evaluateMessageDescriptor\<close>: the keys of the copied descriptor are visited in order and
  each value path is replaced by its evaluated string; the first failure is thrown.
\<close>

fun evaluateMessageDescriptor ::
  "host \<Rightarrow> (string \<times> node) list \<Rightarrow> bool \<Rightarrow> error + (string \<times> string) list" where
  "evaluateMessageDescriptor h [] isJSXSource = Inr []"
| "evaluateMessageDescriptor h ((key, valuePath) # rest) isJSXSource =
     (case (if key = ''defaultMessage'' then getICUMessageValue h valuePath isJSXSource
            else getMessageDescriptorValue h valuePath) of
        Inl e \<Rightarrow> Inl e
      | Inr v \<Rightarrow>
          (case evaluateMessageDescriptor h rest isJSXSource of
             Inl e \<Rightarrow> Inl e
           | Inr rest' \<Rightarrow> Inr ((key, v) # rest')))"

text \<open>The destructuring \<open>{id, description, defaultMessage, c}\<close> of an evaluated descriptor.\<close>

definition destructure :: "(string \<times> string) list \<Rightarrow> descriptor" where
  "destructure obj =
     \<lparr>d_id = map_of obj ''id'', d_description = map_of obj ''description'',
      d_defaultMessage = map_of obj ''defaultMessage'', d_c = map_of obj ''c''\<rparr>"

text \<open>
  \<open>storeMessage\<close> returns the outcome together with the state it leaves behind, so that
  what a failed call did to the map is part of the result.
\<close>

definition storeMessage ::
  "host \<Rightarrow> descriptor \<Rightarrow> SourceLocation \<Rightarrow> state \<Rightarrow> (error + unit) \<times> state" where
  "storeMessage h d node_loc st =
     (case (d_id d, d_defaultMessage d) of
        (Some i, Some dm) \<Rightarrow>
          if i = [] \<or> dm = [] then (Inl MissingRequiredField, st)
          else if (case Map_get (messages st) i of
                     None \<Rightarrow> False
                   | Some existing \<Rightarrow>
                       d_description d \<noteq> e_description existing \<or>
                       dm \<noteq> e_defaultMessage existing)
          then (Inl (DuplicateIdConflict i), st)
          else if enforceDescriptions (st_opts st) \<and> \<not> truthy (d_description d)
          then (Inl MissingDescription, st)
          else
            (let loc = (if extractSourceLocation (st_opts st)
                        then Some (p_relative h (process_cwd h) (file_filename st), node_loc)
                        else None);
                 i' = (case d_c d of
                         None \<Rightarrow> i
                       | Some c \<Rightarrow> if c = [] then i else i @ ''##'' @ c)
             in (Inr (),
                 st\<lparr>messages := Map_set (messages st) i'
                      \<lparr>e_id = i', e_description = d_description d,
                       e_defaultMessage = dm, e_loc = loc\<rparr>\<rparr>))
      | other \<Rightarrow> (Inl MissingRequiredField, st))"

definition referencesImport :: "host \<Rightarrow> node \<Rightarrow> string \<Rightarrow> string list \<Rightarrow> bool" where
  "referencesImport h path modname importedNames =
     (if \<not> (isIdentifier path \<or> isJSXIdentifier path) then False
      else list_ex (\<lambda>name. path_referencesImport h path modname name) importedNames)"

definition wasExtracted_el :: "opening_element \<Rightarrow> bool" where
  "wasExtracted_el el = el_extracted el"

definition tagAsExtracted_el :: "opening_element \<Rightarrow> opening_element" where
  "tagAsExtracted_el el = el\<lparr>el_extracted := True\<rparr>"

definition wasExtracted_call :: "call_expression \<Rightarrow> bool" where
  "wasExtracted_call c = call_extracted c"

definition tagAsExtracted_call :: "call_expression \<Rightarrow> call_expression" where
  "tagAsExtracted_call c = c\<lparr>call_extracted := True\<rparr>"

section \<open>The visitor\<close>


definition Program_exit :: "host \<Rightarrow> state \<Rightarrow> state" where
  "Program_exit h st =
     (let descriptors = Map_values (messages st);
          st1 = st\<lparr>metadata := Some descriptors\<rparr>
      in if truthy (messagesDir (st_opts st)) \<and> length descriptors > 0 then
           (let relativePath = p_join h [p_sep h, p_relative h (process_cwd h) (file_filename st)];
                messagesFilename =
                  p_join h [case messagesDir (st_opts st) of Some dir \<Rightarrow> dir | None \<Rightarrow> [],
                            p_dirname h relativePath, file_basename st @ ''.json''];
                messagesFile = JSON_stringify h descriptors 2
            in st1\<lparr>fs_calls := fs_calls st1 @
                 [Mkdirp (p_dirname h messagesFilename), WriteFile messagesFilename messagesFile]\<rparr>)
         else st1)"

text \<open>
  The \<open>attributes.some\<close> loop that removes the first attribute named \<open>description\<close>:
  spread attributes were filtered out before and are skipped; the loop stops at the
  attribute it removes, and a key that cannot be evaluated throws.
\<close>

fun remove_description :: "host \<Rightarrow> attribute list \<Rightarrow> error + attribute list" where
  "remove_description h [] = Inr []"
| "remove_description h (JSXSpreadAttribute e # rest) =
     (case remove_description h rest of
        Inl err \<Rightarrow> Inl err
      | Inr rest' \<Rightarrow> Inr (JSXSpreadAttribute e # rest'))"
| "remove_description h (JSXAttribute k v # rest) =
     (case getMessageDescriptorKey h k of
        Inl err \<Rightarrow> Inl err
      | Inr key \<Rightarrow>
          if key = JString ''description'' then Inr rest
          else (case remove_description h rest of
                  Inl err \<Rightarrow> Inl err
                | Inr rest' \<Rightarrow> Inr (JSXAttribute k v # rest')))"

fun attribute_pair :: "attribute \<Rightarrow> node \<times> node" where
  "attribute_pair (JSXAttribute k v) = (k, v)"
| "attribute_pair (JSXSpreadAttribute e) = (e, NoNode)"

text \<open>
  The element callback returns the outcome, the element as the call leaves it (tagged,
  \<open>description\<close> removed) and the state as the call leaves it.
\<close>

definition JSXOpeningElement ::
  "host \<Rightarrow> opening_element \<Rightarrow> state \<Rightarrow> (error + unit) \<times> opening_element \<times> state" where
  "JSXOpeningElement h el st =
     (let isTComp = (node_name (el_name el) = JString COMPONENT_NAME) in
      if wasExtracted_el el then (Inr (), el, st)
      else
        (let moduleSourceName = getModuleSourceName (st_opts st);
             name = el_name el
         in if path_referencesImport h name moduleSourceName ''FormattedPlural'' then
              (Inr (), el, st\<lparr>log_warn := log_warn st @ [FormattedPluralWarning (start_line (el_loc el))]\<rparr>)
            else if referencesImport h name moduleSourceName COMPONENT_NAMES \<or> isTComp then
              (let attributes = filter isJSXAttribute (el_attributes el) in
               case createMessageDescriptor h (map attribute_pair attributes) isTComp of
                 Inl e \<Rightarrow> (Inl e, el, st)
               | Inr descriptor \<Rightarrow>
                   (case map_of descriptor ''defaultMessage'' of
                      None \<Rightarrow> (Inr (), el, st)
                    | Some dmPath \<Rightarrow>
                        (case evaluateMessageDescriptor h descriptor True of
                           Inl e \<Rightarrow> (Inl e, el, st)
                         | Inr evaluated \<Rightarrow>
                             (case storeMessage h (destructure evaluated) (el_loc el) st of
                                (Inl e, st') \<Rightarrow> (Inl e, el, st')
                              | (Inr u, st') \<Rightarrow>
                                  (case remove_description h (el_attributes el) of
                                     Inl e \<Rightarrow> (Inl e, el, st')
                                   | Inr attrs' \<Rightarrow>
                                       (Inr (), tagAsExtracted_el (el\<lparr>el_attributes := attrs'\<rparr>), st'))))))
            else (Inr (), el, st)))"

text \<open>
  The call callback: \<open>[textPath, _, cPath] = path.get('arguments')\<close>; a call without
  arguments hands \<open>undefined\<close> to \<open>getICUMessageValue\<close>, whose first method call throws.
\<close>

fun third_argument :: "node list \<Rightarrow> node option" where
  "third_argument (a # b # c # rest) = Some c"
| "third_argument other = None"

definition CallExpression ::
  "host \<Rightarrow> call_expression \<Rightarrow> state \<Rightarrow> (error + unit) \<times> call_expression \<times> state" where
  "CallExpression h call st =
     (if wasExtracted_call call then (Inr (), call, st)
      else if node_name (call_callee call) = JString ''t'' then
        (case call_arguments call of
           [] \<Rightarrow> (Inl TypeError, call, st)
         | textPath # others \<Rightarrow>
             (case getICUMessageValue h textPath False of
                Inl e \<Rightarrow> (Inl e, call, st)
              | Inr text \<Rightarrow>
                  (case (case third_argument (call_arguments call) of
                           None \<Rightarrow> Inr None
                         | Some cPath \<Rightarrow>
                             (case getMessageDescriptorValue h cPath of
                                Inl e \<Rightarrow> Inl e
                              | Inr c \<Rightarrow> Inr (Some c))) of
                     Inl e \<Rightarrow> (Inl e, call, st)
                   | Inr c \<Rightarrow>
                       (case storeMessage h
                               \<lparr>d_id = Some text, d_description = None,
                                d_defaultMessage = Some text, d_c = c\<rparr> (call_loc call) st of
                          (Inl e, st') \<Rightarrow> (Inl e, call, st')
                        | (Inr u, st') \<Rightarrow> (Inr (), tagAsExtracted_call call, st')))))
      else (Inr (), call, st))"

section \<open>A sample host for the examples\<close>

text \<open>
  The examples below run the callbacks on concrete trees. They use this host: literals
  evaluate to their value, the identifier \<open>undefined\<close> to \<open>undefined\<close>, and nothing else
  is confident; the unit imports \<open>FormattedMessage\<close> and \<open>FormattedPlural\<close> from
  \<open>react-intl\<close>.
\<close>

fun sample_evaluate :: "node \<Rightarrow> jsval option" where
  "sample_evaluate (StringLiteral s) = Some (JString s)"
| "sample_evaluate (NumericLiteral n) = Some (JNumber n)"
| "sample_evaluate (BooleanLiteral b) = Some (JBoolean b)"
| "sample_evaluate NullLiteral = Some JNull"
| "sample_evaluate (Identifier n) = (if n = ''undefined'' then Some JUndefined else None)"
| "sample_evaluate other = None"

definition sample_referencesImport :: "node \<Rightarrow> string \<Rightarrow> string \<Rightarrow> bool" where
  "sample_referencesImport path modname name =
     (modname = ''react-intl'' \<and> path = JSXIdentifier name \<and>
      (name = ''FormattedMessage'' \<or> name = ''FormattedPlural''))"

text \<open>
  Modelled from the spec: the message printer \<open>./print-icu-message\<close> is not among the
  sources. The spec says of it that it parses message-format text and re-serialises it, and
  that text with unbalanced braces fails to parse. This stand-in does that much: it counts
  braces, returns balanced text unchanged and fails on the rest.
\<close>

fun brace_depth :: "nat \<Rightarrow> string \<Rightarrow> nat option" where
  "brace_depth d [] = Some d"
| "brace_depth d (ch # rest) =
     (if ch = CHR ''{'' then brace_depth (Suc d) rest
      else if ch = CHR ''}'' then (case d of 0 \<Rightarrow> None | Suc d' \<Rightarrow> brace_depth d' rest)
      else brace_depth d rest)"

definition sample_printICUMessage :: "string \<Rightarrow> string + string" where
  "sample_printICUMessage message =
     (if brace_depth 0 message = Some 0 then Inr message else Inl ''SyntaxError'')"

text \<open>
  Stand-ins for Node's \<open>path\<close> functions on POSIX paths without \<open>.\<close> and \<open>..\<close> segments, and
  for \<open>JSON.stringify\<close>, which here lists the entries' ids behind the indentation.
\<close>

fun squeeze_slashes :: "string \<Rightarrow> string" where
  "squeeze_slashes (a # b # rest) =
     (if a = CHR ''/'' \<and> b = CHR ''/'' then squeeze_slashes (b # rest)
      else a # squeeze_slashes (b # rest))"
| "squeeze_slashes other = other"

fun sample_p_join :: "string list \<Rightarrow> string" where
  "sample_p_join [] = []"
| "sample_p_join [part] = squeeze_slashes part"
| "sample_p_join (part # parts) = squeeze_slashes (part @ ''/'' @ sample_p_join parts)"

definition sample_p_dirname :: "string \<Rightarrow> string" where
  "sample_p_dirname path =
     (let dir = rev (drop 1 (dropWhile (\<lambda>ch. ch \<noteq> CHR ''/'') (rev path)))
      in if dir = [] then (if CHR ''/'' \<in> set path then ''/'' else ''.'') else dir)"

definition sample_p_relative :: "string \<Rightarrow> string \<Rightarrow> string" where
  "sample_p_relative base target =
     (if take (Suc (length base)) target = base @ ''/'' then drop (Suc (length base)) target
      else target)"

definition sample_JSON_stringify :: "entry list \<Rightarrow> nat \<Rightarrow> string" where
  "sample_JSON_stringify descriptors indent =
     concat (map (\<lambda>e. replicate indent CHR '' '' @ e_id e @ [CHR 0x0A]) descriptors)"

definition sample_host :: host where
  "sample_host =
     \<lparr>evaluate = sample_evaluate, path_referencesImport = sample_referencesImport,
      printICUMessage = sample_printICUMessage, p_relative = sample_p_relative,
      p_join = sample_p_join, p_dirname = sample_p_dirname, p_sep = ''/'',
      process_cwd = ''/repo'', JSON_stringify = sample_JSON_stringify\<rparr>"

definition sample_loc :: SourceLocation where
  "sample_loc = \<lparr>start_line = 1, start_column = 0, end_line = 1, end_column = 10\<rparr>"

definition sample_opts :: opts where
  "sample_opts =
     \<lparr>moduleSourceName = None, enforceDescriptions = False, extractSourceLocation = False,
      messagesDir = None\<rparr>"

text \<open>The state after \<open>Program.enter\<close> for the file \<open>/repo/src/app.js\<close>.\<close>

definition sample_state :: state where
  "sample_state =
     \<lparr>st_opts = sample_opts, file_filename = ''/repo/src/app.js'', file_basename = ''app'',
      messages = [], log_warn = [], metadata = None, fs_calls = []\<rparr>"

text \<open>A store that already holds one described message, without and with \<open>enforceDescriptions\<close>.\<close>

definition greeting_entry :: entry where
  "greeting_entry =
     \<lparr>e_id = ''greeting'', e_description = Some ''greets user'',
      e_defaultMessage = ''Hi {name}'', e_loc = None\<rparr>"

definition greeting_state :: state where
  "greeting_state = sample_state\<lparr>messages := [(''greeting'', greeting_entry)]\<rparr>"

definition strict_greeting_state :: state where
  "strict_greeting_state = greeting_state\<lparr>st_opts := sample_opts\<lparr>enforceDescriptions := True\<rparr>\<rparr>"

text \<open>Descriptors for the id \<open>greeting\<close>: one with another text, one without a description.\<close>

definition reworded_greeting :: descriptor where
  "reworded_greeting =
     \<lparr>d_id = Some ''greeting'', d_description = Some ''greets user'',
      d_defaultMessage = Some ''Hello {name}'', d_c = None\<rparr>"

definition undescribed_greeting :: descriptor where
  "undescribed_greeting =
     \<lparr>d_id = Some ''greeting'', d_description = None,
      d_defaultMessage = Some ''Hi {name}'', d_c = None\<rparr>"

definition undescribed_farewell :: descriptor where
  "undescribed_farewell =
     \<lparr>d_id = Some ''farewell'', d_description = None,
      d_defaultMessage = Some ''Bye'', d_c = None\<rparr>"

definition nameless_descriptor :: descriptor where
  "nameless_descriptor =
     \<lparr>d_id = None, d_description = None, d_defaultMessage = Some ''Bye'', d_c = None\<rparr>"




text \<open>
  The element \<open><T s="Hello" c="foo" />\<close> and the call \<open>t("Welcome", values, "greeting")\<close>, each
  with the state that the first visit of it leaves behind, and the call \<open>t("Welcome")\<close>.
\<close>

definition hello_element :: opening_element where
  "hello_element =
     \<lparr>el_name = JSXIdentifier ''T'',
      el_attributes = [JSXAttribute (JSXIdentifier ''s'') (StringLiteral ''Hello''),
                       JSXAttribute (JSXIdentifier ''c'') (StringLiteral ''foo'')],
      el_loc = sample_loc, el_extracted = False\<rparr>"

definition hello_state :: state where
  "hello_state =
     sample_state\<lparr>messages :=
       [(''Hello##foo'', \<lparr>e_id = ''Hello##foo'', e_description = None,
                          e_defaultMessage = ''Hello'', e_loc = None\<rparr>)]\<rparr>"

definition welcome_call :: call_expression where
  "welcome_call =
     \<lparr>call_callee = Identifier ''t'',
      call_arguments = [StringLiteral ''Welcome'', Expression 0, StringLiteral ''greeting''],
      call_loc = sample_loc, call_extracted = False\<rparr>"

definition plain_welcome_call :: call_expression where
  "plain_welcome_call =
     \<lparr>call_callee = Identifier ''t'', call_arguments = [StringLiteral ''Welcome''],
      call_loc = sample_loc, call_extracted = False\<rparr>"

definition welcome_state :: state where
  "welcome_state =
     sample_state\<lparr>messages :=
       [(''Welcome##greeting'', \<lparr>e_id = ''Welcome##greeting'', e_description = None,
                                 e_defaultMessage = ''Welcome'', e_loc = None\<rparr>)]\<rparr>"

text \<open>
  The element \<open><FormattedMessage id="greeting" defaultMessage="Hi" />\<close>, whose tag the
  sample host resolves to the import of \<open>FormattedMessage\<close> from \<open>react-intl\<close>, and a
  \<open><FormattedPlural />\<close>.
\<close>

definition formatted_message_element :: opening_element where
  "formatted_message_element =
     \<lparr>el_name = JSXIdentifier ''FormattedMessage'',
      el_attributes = [JSXAttribute (JSXIdentifier ''id'') (StringLiteral ''greeting''),
                       JSXAttribute (JSXIdentifier ''defaultMessage'') (StringLiteral ''Hi'')],
      el_loc = sample_loc, el_extracted = False\<rparr>"

definition formatted_plural_element :: opening_element where
  "formatted_plural_element =
     \<lparr>el_name = JSXIdentifier ''FormattedPlural'', el_attributes = [],
      el_loc = sample_loc, el_extracted = False\<rparr>"

text \<open>All the definitions a run of a callback on a concrete tree unfolds.\<close>

lemmas callback_defs =
  JSXOpeningElement_def CallExpression_def createMessageDescriptor_def
  createMessageDescriptor_step_def getMessageDescriptorKey_def getMessageDescriptorValue_def
  getICUMessageValue_def evaluatePath_def storeMessage_def destructure_def referencesImport_def
  getModuleSourceName_def wasExtracted_el_def tagAsExtracted_el_def wasExtracted_call_def
  tagAsExtracted_call_def COMPONENT_NAMES_def COMPONENT_NAME_def MESSAGE_PROPERTY_def
  COMMENT_PROPERTY_def DESCRIPTOR_PROPS_def Map_get_def trim_def isWhiteSpace_def Let_def

lemmas element_defs =
  hello_element_def hello_state_def welcome_call_def plain_welcome_call_def welcome_state_def
  formatted_message_element_def formatted_plural_element_def

text \<open>
  The unit \<open>/repo/src/app.js\<close> at its end, with \<open>messagesDir\<close> set to \<open>build/messages\<close>: once
  with nothing extracted and once with the two entries of the visits above, in that order.
\<close>

definition empty_unit_state :: state where
  "empty_unit_state = sample_state\<lparr>st_opts := sample_opts\<lparr>messagesDir := Some ''build/messages''\<rparr>\<rparr>"

definition two_entries :: "(string \<times> entry) list" where
  "two_entries =
     [(''Hello##foo'', \<lparr>e_id = ''Hello##foo'', e_description = None,
                        e_defaultMessage = ''Hello'', e_loc = None\<rparr>),
      (''Welcome'', \<lparr>e_id = ''Welcome'', e_description = None,
                     e_defaultMessage = ''Welcome'', e_loc = None\<rparr>)]"

definition full_unit_state :: state where
  "full_unit_state = empty_unit_state\<lparr>messages := two_entries\<rparr>"

text \<open>
  An attribute-embedded literal and the same text wrapped in an expression container: a
  letter, two backslashes and an opening brace that is never closed.
\<close>

definition escaped_text :: string where
  "escaped_text = [CHR ''a'', CHR 0x5C, CHR 0x5C, CHR ''{'']"

definition escaped_element :: opening_element where
  "escaped_element =
     \<lparr>el_name = JSXIdentifier ''T'',
      el_attributes = [JSXAttribute (JSXIdentifier ''s'') (StringLiteral escaped_text)],
      el_loc = sample_loc, el_extracted = False\<rparr>"

definition escaped_wrapped_element :: opening_element where
  "escaped_wrapped_element =
     \<lparr>el_name = JSXIdentifier ''T'',
      el_attributes = [JSXAttribute (JSXIdentifier ''s'')
                         (JSXExpressionContainer (StringLiteral escaped_text))],
      el_loc = sample_loc, el_extracted = False\<rparr>"

lemmas unit_defs =
  empty_unit_state_def two_entries_def full_unit_state_def escaped_text_def
  escaped_element_def escaped_wrapped_element_def

text \<open>The raw descriptor built from the attributes of \<open><T s="Hello" c="foo" />\<close>.\<close>

definition hello_hash :: "(string \<times> node) list" where
  "hello_hash =
     [(''id'', StringLiteral ''Hello''), (''defaultMessage'', StringLiteral ''Hello''),
      (''c'', StringLiteral ''foo'')]"

text \<open>
  The elements \<open><T s="X##foo" />\<close> and \<open><T s="X" c="foo" />\<close>, whose storage keys coincide,
  with the stores that a visit of each leaves behind in an empty store, and the element
  \<open><T s="X" c=" " />\<close>, whose comment is blank.
\<close>

definition suffixed_text_element :: opening_element where
  "suffixed_text_element =
     \<lparr>el_name = JSXIdentifier ''T'',
      el_attributes = [JSXAttribute (JSXIdentifier ''s'') (StringLiteral ''X##foo'')],
      el_loc = sample_loc, el_extracted = False\<rparr>"

definition commented_element :: opening_element where
  "commented_element =
     \<lparr>el_name = JSXIdentifier ''T'',
      el_attributes = [JSXAttribute (JSXIdentifier ''s'') (StringLiteral ''X''),
                       JSXAttribute (JSXIdentifier ''c'') (StringLiteral ''foo'')],
      el_loc = sample_loc, el_extracted = False\<rparr>"

definition suffixed_text_state :: state where
  "suffixed_text_state =
     sample_state\<lparr>messages :=
       [(''X##foo'', \<lparr>e_id = ''X##foo'', e_description = None, e_defaultMessage = ''X##foo'',
                      e_loc = None\<rparr>)]\<rparr>"

definition commented_element_state :: state where
  "commented_element_state =
     sample_state\<lparr>messages :=
       [(''X##foo'', \<lparr>e_id = ''X##foo'', e_description = None, e_defaultMessage = ''X'',
                      e_loc = None\<rparr>)]\<rparr>"

definition blank_comment_element :: opening_element where
  "blank_comment_element =
     \<lparr>el_name = JSXIdentifier ''T'',
      el_attributes = [JSXAttribute (JSXIdentifier ''s'') (StringLiteral ''X''),
                       JSXAttribute (JSXIdentifier ''c'') (StringLiteral '' '')],
      el_loc = sample_loc, el_extracted = False\<rparr>"

lemmas key_clash_defs =
  suffixed_text_element_def commented_element_def suffixed_text_state_def
  commented_element_state_def blank_comment_element_def

lemmas sample_defs =
  sample_host_def sample_state_def sample_opts_def sample_loc_def sample_printICUMessage_def
  sample_referencesImport_def greeting_entry_def greeting_state_def strict_greeting_state_def
  reworded_greeting_def undescribed_greeting_def undescribed_farewell_def
  nameless_descriptor_def

section \<open>Insertion-ordered maps: lookup after set\<close>

lemma Map_get_Map_set:
  "Map_get (Map_set m k v) k' = (if k' = k then Some v else Map_get m k')"
  by (induction m) (auto simp: Map_get_def)


lemma Map_set_keys:
  "map fst (Map_set m k v) = (if k \<in> set (map fst m) then map fst m else map fst m @ [k])"
  by (induction m) force+

section \<open>The Extraction Store\<close>

text \<open>\<open>storeMessage\<close> on a descriptor with both required fields, and on one without.\<close>

lemma storeMessage_present:
  assumes "d_id d = Some i" and "d_defaultMessage d = Some dm" and "i \<noteq> []" and "dm \<noteq> []"
  shows "storeMessage h d node_loc st =
     (if (case Map_get (messages st) i of
            None \<Rightarrow> False
          | Some existing \<Rightarrow>
              d_description d \<noteq> e_description existing \<or> dm \<noteq> e_defaultMessage existing)
      then (Inl (DuplicateIdConflict i), st)
      else if enforceDescriptions (st_opts st) \<and> \<not> truthy (d_description d)
      then (Inl MissingDescription, st)
      else (Inr (),
            st\<lparr>messages := Map_set (messages st)
                  (case d_c d of None \<Rightarrow> i | Some c \<Rightarrow> if c = [] then i else i @ ''##'' @ c)
                  \<lparr>e_id = (case d_c d of None \<Rightarrow> i | Some c \<Rightarrow> if c = [] then i else i @ ''##'' @ c),
                   e_description = d_description d, e_defaultMessage = dm,
                   e_loc = (if extractSourceLocation (st_opts st)
                            then Some (p_relative h (process_cwd h) (file_filename st), node_loc)
                            else None)\<rparr>\<rparr>))"
  using assms by (simp add: storeMessage_def Let_def)

lemma storeMessage_absent:
  "\<not> (truthy (d_id d) \<and> truthy (d_defaultMessage d)) \<Longrightarrow>
     storeMessage h d node_loc st = (Inl MissingRequiredField, st)"
  by (cases "d_id d"; cases "d_defaultMessage d") (auto simp: storeMessage_def)

text \<open>
  C10. Whenever \<open>storeMessage\<close> raises an error (required field missing, duplicate
  conflict, description missing), the state it leaves behind is the state it was called
  in: the messages map is set only after every check has passed.
\<close>

theorem storeMessage_failure_leaves_store:
  "fst (storeMessage h d node_loc st) = Inl e \<Longrightarrow> snd (storeMessage h d node_loc st) = st"
  by (auto simp: storeMessage_def Let_def split: option.splits if_splits)

text \<open>
  The three kinds of failure on concrete stores: in each the store is what it was.
\<close>

theorem storeMessage_failure_leaves_store_witness:
  "fst (storeMessage sample_host reworded_greeting sample_loc greeting_state) =
     Inl (DuplicateIdConflict ''greeting'') \<and>
   snd (storeMessage sample_host reworded_greeting sample_loc greeting_state) = greeting_state \<and>
   fst (storeMessage sample_host undescribed_farewell sample_loc strict_greeting_state) =
     Inl MissingDescription \<and>
   snd (storeMessage sample_host undescribed_farewell sample_loc strict_greeting_state) =
     strict_greeting_state \<and>
   fst (storeMessage sample_host nameless_descriptor sample_loc greeting_state) =
     Inl MissingRequiredField \<and>
   snd (storeMessage sample_host nameless_descriptor sample_loc greeting_state) = greeting_state"
proof -
  have a: "fst (storeMessage sample_host reworded_greeting sample_loc greeting_state) =
      Inl (DuplicateIdConflict ''greeting'')"
    by (simp add: storeMessage_def Map_get_def sample_defs)
  have b: "fst (storeMessage sample_host undescribed_farewell sample_loc strict_greeting_state) =
      Inl MissingDescription"
    by (simp add: storeMessage_def Map_get_def sample_defs)
  have c: "fst (storeMessage sample_host nameless_descriptor sample_loc greeting_state) =
      Inl MissingRequiredField"
    by (simp add: storeMessage_def Map_get_def sample_defs)
  show ?thesis
    using a b c storeMessage_failure_leaves_store [OF a] storeMessage_failure_leaves_store [OF b]
      storeMessage_failure_leaves_store [OF c]
    by simp
qed

text \<open>
  The order of the throws in the body of \<open>storeMessage\<close>, for any store whatever: required
  fields, then the comparison with a stored entry, then the required description.
\<close>

lemma storeMessage_order_of_throws:
  "(\<not> (truthy (d_id d) \<and> truthy (d_defaultMessage d)) \<longrightarrow>
      fst (storeMessage h d node_loc st) = Inl MissingRequiredField) \<and>
   (d_id d = Some i \<and> i \<noteq> [] \<and> d_defaultMessage d = Some dm \<and> dm \<noteq> [] \<and>
    Map_get (messages st) i = Some existing \<and>
    (d_description d \<noteq> e_description existing \<or> dm \<noteq> e_defaultMessage existing) \<longrightarrow>
      fst (storeMessage h d node_loc st) = Inl (DuplicateIdConflict i)) \<and>
   (d_id d = Some i \<and> i \<noteq> [] \<and> d_defaultMessage d = Some dm \<and> dm \<noteq> [] \<and>
    (\<forall>existing. Map_get (messages st) i = Some existing \<longrightarrow>
       d_description d = e_description existing \<and> dm = e_defaultMessage existing) \<and>
    enforceDescriptions (st_opts st) \<and> \<not> truthy (d_description d) \<longrightarrow>
      fst (storeMessage h d node_loc st) = Inl MissingDescription)"
proof (intro conjI impI)
  assume "\<not> (truthy (d_id d) \<and> truthy (d_defaultMessage d))"
  then show "fst (storeMessage h d node_loc st) = Inl MissingRequiredField"
    by (simp add: storeMessage_absent)
next
  assume "d_id d = Some i \<and> i \<noteq> [] \<and> d_defaultMessage d = Some dm \<and> dm \<noteq> [] \<and>
    Map_get (messages st) i = Some existing \<and>
    (d_description d \<noteq> e_description existing \<or> dm \<noteq> e_defaultMessage existing)"
  then show "fst (storeMessage h d node_loc st) = Inl (DuplicateIdConflict i)"
    by (auto simp: storeMessage_present [of d i dm])
next
  assume "d_id d = Some i \<and> i \<noteq> [] \<and> d_defaultMessage d = Some dm \<and> dm \<noteq> [] \<and>
    (\<forall>existing. Map_get (messages st) i = Some existing \<longrightarrow>
       d_description d = e_description existing \<and> dm = e_defaultMessage existing) \<and>
    enforceDescriptions (st_opts st) \<and> \<not> truthy (d_description d)"
  then show "fst (storeMessage h d node_loc st) = Inl MissingDescription"
    by (auto simp: storeMessage_present [of d i dm] split: option.splits)
qed


lemma storeMessage_success_fields:
  assumes "fst (storeMessage h d node_loc st) = Inr ()"
  shows "\<exists>i dm. d_id d = Some i \<and> i \<noteq> [] \<and> d_defaultMessage d = Some dm \<and> dm \<noteq> []"
  using assms
  by (cases "d_id d"; cases "d_defaultMessage d") (auto simp: storeMessage_def split: if_splits)




section \<open>The callbacks\<close>

text \<open>
  C8. Invoked on a node that is already marked processed, the element callback and the
  call callback return at once: no error, the node as it was, the state (store, warnings,
  file-system calls) as it was.
\<close>

theorem callbacks_skip_processed_nodes:
  "(wasExtracted_el el \<longrightarrow> JSXOpeningElement h el st = (Inr (), el, st)) \<and>
   (wasExtracted_call call \<longrightarrow> CallExpression h call st' = (Inr (), call, st'))"
  by (simp add: JSXOpeningElement_def CallExpression_def Let_def)

text \<open>
  A first visit extracts and marks the node; a second visit of the marked node, in the
  state the first one left, changes nothing.
\<close>

theorem callbacks_skip_processed_nodes_witness:
  "JSXOpeningElement sample_host hello_element sample_state =
     (Inr (), tagAsExtracted_el hello_element, hello_state) \<and>
   JSXOpeningElement sample_host (tagAsExtracted_el hello_element) hello_state =
     (Inr (), tagAsExtracted_el hello_element, hello_state) \<and>
   CallExpression sample_host welcome_call sample_state =
     (Inr (), tagAsExtracted_call welcome_call, welcome_state) \<and>
   CallExpression sample_host (tagAsExtracted_call welcome_call) welcome_state =
     (Inr (), tagAsExtracted_call welcome_call, welcome_state)"
proof -
  have first_el: "JSXOpeningElement sample_host hello_element sample_state =
      (Inr (), tagAsExtracted_el hello_element, hello_state)"
    by (simp add: callback_defs element_defs sample_defs)
  have first_call: "CallExpression sample_host welcome_call sample_state =
      (Inr (), tagAsExtracted_call welcome_call, welcome_state)"
    by (simp add: callback_defs element_defs sample_defs)
  have marked: "wasExtracted_el (tagAsExtracted_el hello_element)"
    "wasExtracted_call (tagAsExtracted_call welcome_call)"
    by (simp_all add: wasExtracted_el_def tagAsExtracted_el_def wasExtracted_call_def
        tagAsExtracted_call_def)
  from callbacks_skip_processed_nodes
    [of "tagAsExtracted_el hello_element" sample_host hello_state
        "tagAsExtracted_call welcome_call" welcome_state] marked
  have again: "JSXOpeningElement sample_host (tagAsExtracted_el hello_element) hello_state =
      (Inr (), tagAsExtracted_el hello_element, hello_state) \<and>
    CallExpression sample_host (tagAsExtracted_call welcome_call) welcome_state =
      (Inr (), tagAsExtracted_call welcome_call, welcome_state)"
    by blast
  from first_el first_call again show ?thesis by simp
qed

section \<open>The Catalog Emitter\<close>

text \<open>
  Insertion order: a successful insert leaves the keys of the store in place and puts a
  key that was not there at the end, so the values exported at the end of the unit are in
  the order of first insertion.
\<close>

lemma storeMessage_keeps_order:
  assumes "fst (storeMessage h d node_loc st) = Inr ()"
  shows "\<exists>key. map fst (messages (snd (storeMessage h d node_loc st))) =
           (if key \<in> set (map fst (messages st)) then map fst (messages st)
            else map fst (messages st) @ [key])"
proof -
  from storeMessage_success_fields [OF assms] obtain i dm where
    "d_id d = Some i" "i \<noteq> []" "d_defaultMessage d = Some dm" "dm \<noteq> []"
    by blast
  with assms show ?thesis
    by (auto simp: storeMessage_present [of d i dm] Map_set_keys split: if_splits)
qed

text \<open>
  C7. At the end of a unit with \<open>messagesDir\<close> configured (a non-empty path): when the
  store is empty no file-system call is made; when it holds at least one descriptor, the
  directory of the destination is created and one file is written, at
  \<open>join(messagesDir, dirname(join(sep, relative(cwd, filename))), basename + ".json")\<close>,
  whose content is \<open>JSON.stringify\<close> with indentation 2 of the store's values in insertion
  order.
\<close>

theorem Program_exit_catalog_file:
  fixes h st dir
  defines "messagesFilename \<equiv>
     p_join h [dir, p_dirname h (p_join h [p_sep h, p_relative h (process_cwd h) (file_filename st)]),
               file_basename st @ ''.json'']"
  assumes "messagesDir (st_opts st) = Some dir" and "dir \<noteq> []"
  shows "(messages st = [] \<longrightarrow> fs_calls (Program_exit h st) = fs_calls st) \<and>
         (messages st \<noteq> [] \<longrightarrow>
            fs_calls (Program_exit h st) =
              fs_calls st @
                [Mkdirp (p_dirname h messagesFilename),
                 WriteFile messagesFilename (JSON_stringify h (map snd (messages st)) 2)])"
  using assms by (simp add: Program_exit_def Map_values_def Let_def)

text \<open>
  The unit \<open>/repo/src/app.js\<close> with \<open>messagesDir = build/messages\<close>: nothing is written for
  the empty store, \<open>build/messages/src/app.json\<close> for the store with two entries.
\<close>

theorem Program_exit_catalog_file_witness:
  "fs_calls (Program_exit sample_host empty_unit_state) = [] \<and>
   fs_calls (Program_exit sample_host full_unit_state) =
     [Mkdirp ''build/messages/src'',
      WriteFile ''build/messages/src/app.json''
        (sample_JSON_stringify (map snd two_entries) 2)]"
proof -
  have dir: "messagesDir (st_opts empty_unit_state) = Some ''build/messages''"
    "messagesDir (st_opts full_unit_state) = Some ''build/messages''"
    "''build/messages'' \<noteq> []"
    by (simp_all add: unit_defs sample_defs)
  have none: "messages empty_unit_state = []" and some: "messages full_unit_state \<noteq> []"
    by (simp_all add: unit_defs sample_defs)
  from Program_exit_catalog_file [OF dir(1) dir(3), of sample_host] none
  have 1: "fs_calls (Program_exit sample_host empty_unit_state) = []"
    by (simp add: unit_defs sample_defs)
  from Program_exit_catalog_file [OF dir(2) dir(3), of sample_host] some
  have 2: "fs_calls (Program_exit sample_host full_unit_state) =
     [Mkdirp ''build/messages/src'',
      WriteFile ''build/messages/src/app.json''
        (sample_JSON_stringify (map snd two_entries) 2)]"
    by (simp add: unit_defs sample_defs sample_p_relative_def sample_p_dirname_def)
  from 1 2 show ?thesis by simp
qed

section \<open>The message-format diagnostic\<close>

text \<open>
  C9. When the \<open>defaultMessage\<close> of a JSX source is an attribute-embedded literal (not
  wrapped in an expression container), its trimmed value contains two consecutive
  backslashes and the printer fails to parse it, the error raised is the escaping
  diagnostic, not the generic parse error with the parser's diagnostic.
\<close>

theorem getICUMessageValue_escape_diagnostic:
  assumes "isLiteral messagePath"
    and "getMessageDescriptorValue h messagePath = Inr message"
    and "indexOf_found message [CHR 0x5C, CHR 0x5C]"
    and "printICUMessage h message = Inl parseError"
  shows "getICUMessageValue h messagePath True = Inl EscapeSyntaxError"
  using assms by (simp add: getICUMessageValue_def)

text \<open>
  A literal with two backslashes and an unclosed brace as the \<open>s\<close> attribute of a \<open>T\<close>
  element: the escaping diagnostic, from the function and from the element callback.
\<close>

theorem getICUMessageValue_escape_diagnostic_witness:
  "getICUMessageValue sample_host (StringLiteral escaped_text) True = Inl EscapeSyntaxError \<and>
   JSXOpeningElement sample_host escaped_element sample_state =
     (Inl EscapeSyntaxError, escaped_element, sample_state)"
proof -
  have lit: "isLiteral (StringLiteral escaped_text)"
    by simp
  have val: "getMessageDescriptorValue sample_host (StringLiteral escaped_text) = Inr escaped_text"
    by (simp add: callback_defs unit_defs sample_defs)
  have bs: "indexOf_found escaped_text [CHR 0x5C, CHR 0x5C]"
    by (simp add: unit_defs)
  have fails: "printICUMessage sample_host escaped_text = Inl ''SyntaxError''"
    by (simp add: unit_defs sample_defs)
  note fn = getICUMessageValue_escape_diagnostic [OF lit val bs fails]
  have "JSXOpeningElement sample_host escaped_element sample_state =
     (case getICUMessageValue sample_host (StringLiteral escaped_text) True of
        Inl e \<Rightarrow> (Inl e, escaped_element, sample_state)
      | Inr v \<Rightarrow> JSXOpeningElement sample_host escaped_element sample_state)"
    by (simp add: callback_defs unit_defs sample_defs)
  with fn show ?thesis by simp
qed

text \<open>
  The same text wrapped in an expression container, and the same literal as the argument
  of a call, raise the generic parse error instead.
\<close>

lemma getICUMessageValue_generic_diagnostic_examples:
  "JSXOpeningElement sample_host escaped_wrapped_element sample_state =
     (Inl (MessageSyntaxError ''SyntaxError''), escaped_wrapped_element, sample_state) \<and>
   getICUMessageValue sample_host (StringLiteral escaped_text) False =
     Inl (MessageSyntaxError ''SyntaxError'')"
  by (simp add: callback_defs unit_defs sample_defs)

section \<open>Which elements are extracted\<close>

text \<open>
  C2 (as the code has it). The list of recognised component names is empty, so no tag
  references an import out of it, whatever the module. An element whose tag name is not
  the shorthand \<open>T\<close> is therefore never extracted: the callback raises nothing, leaves the
  element unmarked and unchanged, and leaves the store as it was; all it may do is log the
  warning for a \<open>FormattedPlural\<close> import.
\<close>

theorem JSXOpeningElement_only_shorthand_extracted:
  "\<not> referencesImport h name modname COMPONENT_NAMES \<and>
   (node_name (el_name el) \<noteq> JString COMPONENT_NAME \<longrightarrow>
      JSXOpeningElement h el st =
        (Inr (), el,
         if \<not> wasExtracted_el el \<and>
            path_referencesImport h (el_name el) (getModuleSourceName (st_opts st))
              ''FormattedPlural''
         then st\<lparr>log_warn := log_warn st @ [FormattedPluralWarning (start_line (el_loc el))]\<rparr>
         else st))"
  by (simp add: JSXOpeningElement_def referencesImport_def COMPONENT_NAMES_def Let_def)

text \<open>
  A \<open>FormattedMessage\<close> element leaves everything as it was; a \<open>FormattedPlural\<close> element
  adds the warning and nothing else.
\<close>

theorem JSXOpeningElement_only_shorthand_extracted_witness:
  "JSXOpeningElement sample_host formatted_message_element greeting_state =
     (Inr (), formatted_message_element, greeting_state) \<and>
   JSXOpeningElement sample_host formatted_plural_element greeting_state =
     (Inr (), formatted_plural_element,
      greeting_state\<lparr>log_warn := [FormattedPluralWarning 1]\<rparr>)"
proof -
  have a: "node_name (el_name formatted_message_element) \<noteq> JString COMPONENT_NAME"
    and b: "node_name (el_name formatted_plural_element) \<noteq> JString COMPONENT_NAME"
    by (simp_all add: element_defs COMPONENT_NAME_def)
  from JSXOpeningElement_only_shorthand_extracted
    [of sample_host "el_name formatted_message_element" "''react-intl''"
        formatted_message_element greeting_state] a
  have 1: "JSXOpeningElement sample_host formatted_message_element greeting_state =
      (Inr (), formatted_message_element, greeting_state)"
    by (simp add: element_defs sample_defs wasExtracted_el_def getModuleSourceName_def)
  from JSXOpeningElement_only_shorthand_extracted
    [of sample_host "el_name formatted_plural_element" "''react-intl''"
        formatted_plural_element greeting_state] b
  have 2: "JSXOpeningElement sample_host formatted_plural_element greeting_state =
      (Inr (), formatted_plural_element,
       greeting_state\<lparr>log_warn := [FormattedPluralWarning 1]\<rparr>)"
    by (simp add: element_defs sample_defs wasExtracted_el_def getModuleSourceName_def)
  from 1 2 show ?thesis by simp
qed

text \<open>
  Against C2 as written: the tag of \<open><FormattedMessage id="greeting" defaultMessage="Hi" />\<close>
  references the import of \<open>FormattedMessage\<close> from \<open>react-intl\<close> and the element carries a
  literal \<open>defaultMessage\<close>, yet the callback stores nothing and does not mark the element.
\<close>

theorem JSXOpeningElement_import_case_counterexample:
  "path_referencesImport sample_host (el_name formatted_message_element)
     (getModuleSourceName (st_opts sample_state)) ''FormattedMessage'' \<and>
   map_of (map attribute_pair (el_attributes formatted_message_element))
     (JSXIdentifier ''defaultMessage'') = Some (StringLiteral ''Hi'') \<and>
   JSXOpeningElement sample_host formatted_message_element sample_state =
     (Inr (), formatted_message_element, sample_state) \<and>
   messages sample_state = [] \<and>
   \<not> wasExtracted_el formatted_message_element"
  by (simp add: callback_defs element_defs sample_defs)

section \<open>The call shape\<close>






section \<open>The shorthand element\<close>

lemma map_of_Map_set: "map_of (Map_set m k v) = (map_of m)(k \<mapsto> v)"
  by (induction m) auto

lemma Map_set_key_set: "fst ` set (Map_set m k v) = insert k (fst ` set m)"
proof -
  have "set (map fst (Map_set m k v)) = insert k (set (map fst m))"
    unfolding Map_set_keys by (cases "k \<in> set (map fst m)") auto
  then show ?thesis by simp
qed

text \<open>
  The raw descriptor of a \<open>T\<close> element: \<open>id\<close> and \<open>defaultMessage\<close> always hold the same
  value path, which is the value of an attribute named \<open>s\<close>, and no other property than
  these two and \<open>c\<close> is ever set.
\<close>

lemma createMessageDescriptor_step_shorthand:
  assumes "createMessageDescriptor_step h True hash kv = Inr hash'"
    and "map_of hash ''id'' = map_of hash ''defaultMessage''"
    and "fst ` set hash \<subseteq> {''id'', ''defaultMessage'', ''c''}"
  shows "map_of hash' ''id'' = map_of hash' ''defaultMessage'' \<and>
         fst ` set hash' \<subseteq> {''id'', ''defaultMessage'', ''c''} \<and>
         (\<forall>p. map_of hash' ''defaultMessage'' = Some p \<longrightarrow>
              map_of hash ''defaultMessage'' = Some p \<or>
              (snd kv = p \<and> getMessageDescriptorKey h (fst kv) = Inr (JString MESSAGE_PROPERTY))) \<and>
         (\<forall>p. map_of hash' ''c'' = Some p \<longrightarrow>
              map_of hash ''c'' = Some p \<or>
              (snd kv = p \<and> getMessageDescriptorKey h (fst kv) = Inr (JString COMMENT_PROPERTY)))"
proof -
  from assms(1) obtain key where key: "getMessageDescriptorKey h (fst kv) = Inr key"
    by (auto simp: createMessageDescriptor_step_def split: sum.splits)
  consider (message) "key = JString MESSAGE_PROPERTY"
    | (comment) "key \<noteq> JString MESSAGE_PROPERTY" "key = JString COMMENT_PROPERTY"
    | (other) "key \<noteq> JString MESSAGE_PROPERTY" "key \<noteq> JString COMMENT_PROPERTY"
    by blast
  then show ?thesis
  proof cases
    case message
    with assms(1) key
    have "hash' = Map_set (Map_set hash ''id'' (snd kv)) ''defaultMessage'' (snd kv)"
      by (simp add: createMessageDescriptor_step_def)
    with assms(2,3) key message show ?thesis
      by (simp add: map_of_Map_set Map_set_key_set)
  next
    case comment
    with assms(1) key have "hash' = Map_set hash ''c'' (snd kv)"
      by (simp add: createMessageDescriptor_step_def COMMENT_PROPERTY_def)
    with assms(2,3) key comment show ?thesis
      by (simp add: map_of_Map_set Map_set_key_set)
  next
    case other
    with assms(1) key have "hash' = hash"
      by (simp add: createMessageDescriptor_step_def)
    with assms(2,3) show ?thesis
      by simp
  qed
qed

lemma reduce_hash_shorthand:
  assumes "reduce_hash h True hash propPaths = Inr hash'"
    and "map_of hash ''id'' = map_of hash ''defaultMessage''"
    and "fst ` set hash \<subseteq> {''id'', ''defaultMessage'', ''c''}"
  shows "map_of hash' ''id'' = map_of hash' ''defaultMessage'' \<and>
         fst ` set hash' \<subseteq> {''id'', ''defaultMessage'', ''c''} \<and>
         (\<forall>p. map_of hash' ''defaultMessage'' = Some p \<longrightarrow>
              map_of hash ''defaultMessage'' = Some p \<or>
              (\<exists>k. (k, p) \<in> set propPaths \<and>
                   getMessageDescriptorKey h k = Inr (JString MESSAGE_PROPERTY))) \<and>
         (\<forall>p. map_of hash' ''c'' = Some p \<longrightarrow>
              map_of hash ''c'' = Some p \<or>
              (\<exists>k. (k, p) \<in> set propPaths \<and>
                   getMessageDescriptorKey h k = Inr (JString COMMENT_PROPERTY)))"
  using assms
proof (induction propPaths arbitrary: hash)
  case Nil
  then show ?case by simp
next
  case (Cons kv rest)
  from Cons.prems(1) obtain mid where
    step: "createMessageDescriptor_step h True hash kv = Inr mid" and
    rest: "reduce_hash h True mid rest = Inr hash'"
    by (auto split: sum.splits)
  note s = createMessageDescriptor_step_shorthand [OF step Cons.prems(2) Cons.prems(3)]
  from s have m1: "map_of mid ''id'' = map_of mid ''defaultMessage''"
    and m2: "fst ` set mid \<subseteq> {''id'', ''defaultMessage'', ''c''}"
    by blast+
  note r = Cons.IH [OF rest m1 m2]
  have dm: "\<forall>p. map_of hash' ''defaultMessage'' = Some p \<longrightarrow>
      map_of hash ''defaultMessage'' = Some p \<or>
      (\<exists>k. (k, p) \<in> set (kv # rest) \<and>
           getMessageDescriptorKey h k = Inr (JString MESSAGE_PROPERTY))"
  proof (intro allI impI)
    fix p assume "map_of hash' ''defaultMessage'' = Some p"
    with r have "map_of mid ''defaultMessage'' = Some p \<or>
        (\<exists>k. (k, p) \<in> set rest \<and> getMessageDescriptorKey h k = Inr (JString MESSAGE_PROPERTY))"
      by blast
    then show "map_of hash ''defaultMessage'' = Some p \<or>
        (\<exists>k. (k, p) \<in> set (kv # rest) \<and>
             getMessageDescriptorKey h k = Inr (JString MESSAGE_PROPERTY))"
    proof
      assume "map_of mid ''defaultMessage'' = Some p"
      with s have "map_of hash ''defaultMessage'' = Some p \<or>
          (snd kv = p \<and> getMessageDescriptorKey h (fst kv) = Inr (JString MESSAGE_PROPERTY))"
        by blast
      then show ?thesis
        by (cases kv) auto
    next
      assume "\<exists>k. (k, p) \<in> set rest \<and>
          getMessageDescriptorKey h k = Inr (JString MESSAGE_PROPERTY)"
      then show ?thesis by auto
    qed
  qed
  have cm: "\<forall>p. map_of hash' ''c'' = Some p \<longrightarrow>
      map_of hash ''c'' = Some p \<or>
      (\<exists>k. (k, p) \<in> set (kv # rest) \<and>
           getMessageDescriptorKey h k = Inr (JString COMMENT_PROPERTY))"
  proof (intro allI impI)
    fix p assume "map_of hash' ''c'' = Some p"
    with r have "map_of mid ''c'' = Some p \<or>
        (\<exists>k. (k, p) \<in> set rest \<and> getMessageDescriptorKey h k = Inr (JString COMMENT_PROPERTY))"
      by blast
    then show "map_of hash ''c'' = Some p \<or>
        (\<exists>k. (k, p) \<in> set (kv # rest) \<and>
             getMessageDescriptorKey h k = Inr (JString COMMENT_PROPERTY))"
    proof
      assume "map_of mid ''c'' = Some p"
      with s have "map_of hash ''c'' = Some p \<or>
          (snd kv = p \<and> getMessageDescriptorKey h (fst kv) = Inr (JString COMMENT_PROPERTY))"
        by blast
      then show ?thesis
        by (cases kv) auto
    next
      assume "\<exists>k. (k, p) \<in> set rest \<and>
          getMessageDescriptorKey h k = Inr (JString COMMENT_PROPERTY)"
      then show ?thesis by auto
    qed
  qed
  from r dm cm show ?case by blast
qed

lemma attribute_pair_member:
  "(k, p) \<in> set (map attribute_pair (filter isJSXAttribute attrs)) \<Longrightarrow>
     JSXAttribute k p \<in> set attrs"
proof (induction attrs)
  case Nil
  then show ?case by simp
next
  case (Cons a attrs)
  then show ?case by (cases a) auto
qed

text \<open>
  An evaluated descriptor has the properties of the raw one; each holds the value its
  path evaluates to, \<open>defaultMessage\<close> through the printer and the rest trimmed only.
\<close>

lemma evaluateMessageDescriptor_lookup:
  assumes "evaluateMessageDescriptor h hash isJSXSource = Inr evaluated"
  shows "(map_of hash key = None \<longrightarrow> map_of evaluated key = None) \<and>
         (\<forall>p. map_of hash key = Some p \<longrightarrow>
            (\<exists>v. map_of evaluated key = Some v \<and>
                 (if key = ''defaultMessage'' then getICUMessageValue h p isJSXSource
                  else getMessageDescriptorValue h p) = Inr v))"
  using assms
proof (induction hash arbitrary: evaluated)
  case Nil
  then show ?case by simp
next
  case (Cons kp rest)
  obtain k p where kp: "kp = (k, p)" by (cases kp)
  from Cons.prems kp obtain v rest' where
    v: "(if k = ''defaultMessage'' then getICUMessageValue h p isJSXSource
         else getMessageDescriptorValue h p) = Inr v" and
    rest: "evaluateMessageDescriptor h rest isJSXSource = Inr rest'" and
    ev: "evaluated = (k, v) # rest'"
    by (auto split: sum.splits)
  from Cons.IH [OF rest] v kp ev show ?case
    by (cases "key = k") auto
qed

lemma getICUMessageValue_success:
  "getICUMessageValue h p isJSXSource = Inr printed \<Longrightarrow>
     \<exists>message. getMessageDescriptorValue h p = Inr message \<and> printICUMessage h message = Inr printed"
  by (auto simp: getICUMessageValue_def split: sum.splits if_splits)

text \<open>What the element callback does with a \<open>T\<close> element it has not seen before.\<close>

lemma JSXOpeningElement_shorthand:
  assumes "node_name (el_name el) = JString COMPONENT_NAME"
    and "\<not> wasExtracted_el el"
    and "\<not> path_referencesImport h (el_name el) (getModuleSourceName (st_opts st)) ''FormattedPlural''"
    and "createMessageDescriptor h (map attribute_pair (filter isJSXAttribute (el_attributes el))) True
           = Inr hash"
    and "map_of hash ''defaultMessage'' = Some sPath"
  shows "JSXOpeningElement h el st =
     (case evaluateMessageDescriptor h hash True of
        Inl e \<Rightarrow> (Inl e, el, st)
      | Inr evaluated \<Rightarrow>
          (case storeMessage h (destructure evaluated) (el_loc el) st of
             (Inl e, st') \<Rightarrow> (Inl e, el, st')
           | (Inr u, st') \<Rightarrow>
               (case remove_description h (el_attributes el) of
                  Inl e \<Rightarrow> (Inl e, el, st')
                | Inr attrs' \<Rightarrow>
                    (Inr (), tagAsExtracted_el (el\<lparr>el_attributes := attrs'\<rparr>), st'))))"
  using assms by (simp add: JSXOpeningElement_def Let_def)

text \<open>
  C4 (as the code has it). When the callback extracts a \<open>T\<close> element, the value path of
  its \<open>s\<close> attribute serves for both \<open>id\<close> and \<open>defaultMessage\<close>, but the two are resolved
  differently: the stored \<open>defaultMessage\<close> is what the printer makes of the trimmed value,
  while the id is the trimmed value itself, not printed, and the stored id is that id
  followed by \<open>##\<close> and the comment when the \<open>c\<close> attribute resolves to a non-empty string.
  The entry has no description.
\<close>

theorem shorthand_element_stored_entry:
  assumes "node_name (el_name el) = JString COMPONENT_NAME"
    and "\<not> wasExtracted_el el"
    and "\<not> path_referencesImport h (el_name el) (getModuleSourceName (st_opts st)) ''FormattedPlural''"
    and "createMessageDescriptor h (map attribute_pair (filter isJSXAttribute (el_attributes el))) True
           = Inr hash"
    and "map_of hash ''defaultMessage'' = Some sPath"
    and "JSXOpeningElement h el st = (Inr (), el', st')"
  shows "\<exists>k message printed key.
      JSXAttribute k sPath \<in> set (el_attributes el) \<and>
      getMessageDescriptorKey h k = Inr (JString MESSAGE_PROPERTY) \<and>
      getMessageDescriptorValue h sPath = Inr message \<and>
      printICUMessage h message = Inr printed \<and>
      (case map_of hash ''c'' of
         None \<Rightarrow> key = message
       | Some cPath \<Rightarrow>
           (\<exists>c. getMessageDescriptorValue h cPath = Inr c \<and>
                key = (if c = [] then message else message @ ''##'' @ c))) \<and>
      (\<exists>e. Map_get (messages st') key = Some e \<and> e_id e = key \<and>
           e_defaultMessage e = printed \<and> e_description e = None)"
proof -
  let ?pairs = "map attribute_pair (filter isJSXAttribute (el_attributes el))"
  from assms(4) have red: "reduce_hash h True [] ?pairs = Inr hash"
    by (simp add: createMessageDescriptor_def)
  note inv = reduce_hash_shorthand [OF red]
  from inv have same: "map_of hash ''id'' = map_of hash ''defaultMessage''"
    and keys: "fst ` set hash \<subseteq> {''id'', ''defaultMessage'', ''c''}"
    by simp_all
  from inv assms(5) obtain k where
    k: "(k, sPath) \<in> set ?pairs" "getMessageDescriptorKey h k = Inr (JString MESSAGE_PROPERTY)"
    by auto
  from k(1) have attr: "JSXAttribute k sPath \<in> set (el_attributes el)"
    by (rule attribute_pair_member)
  have nodesc: "map_of hash ''description'' = None"
  proof (rule ccontr)
    assume "map_of hash ''description'' \<noteq> None"
    then obtain p where "map_of hash ''description'' = Some p" by auto
    then have "''description'' \<in> fst ` set hash"
      by (metis map_of_SomeD fst_conv image_eqI)
    with keys show False by auto
  qed
  note run = JSXOpeningElement_shorthand [OF assms(1,2,3,4,5)]
  from run assms(6) obtain evaluated where
    ev: "evaluateMessageDescriptor h hash True = Inr evaluated" and
    st: "storeMessage h (destructure evaluated) (el_loc el) st = (Inr (), st')"
    by (auto split: sum.splits prod.splits)
  from evaluateMessageDescriptor_lookup [OF ev, of "''id''"] same assms(5)
  obtain message where
    m: "map_of evaluated ''id'' = Some message" "getMessageDescriptorValue h sPath = Inr message"
    by auto
  from evaluateMessageDescriptor_lookup [OF ev, of "''defaultMessage''"] assms(5)
  obtain printed where
    p: "map_of evaluated ''defaultMessage'' = Some printed"
       "getICUMessageValue h sPath True = Inr printed"
    by auto
  from getICUMessageValue_success [OF p(2)] m(2)
  have printed: "printICUMessage h message = Inr printed"
    by auto
  from evaluateMessageDescriptor_lookup [OF ev, of "''description''"] nodesc
  have d: "map_of evaluated ''description'' = None"
    by simp
  let ?d = "destructure evaluated"
  have fields: "d_id ?d = Some message" "d_defaultMessage ?d = Some printed"
    "d_description ?d = None" "d_c ?d = map_of evaluated ''c''"
    using m(1) p(1) d by (simp_all add: destructure_def)
  from st have ok: "fst (storeMessage h ?d (el_loc el) st) = Inr ()"
    by simp
  from storeMessage_success_fields [OF ok] fields
  have ne: "message \<noteq> []" "printed \<noteq> []"
    by auto
  define key where
    "key = (case map_of evaluated ''c'' of
              None \<Rightarrow> message
            | Some c \<Rightarrow> if c = [] then message else message @ ''##'' @ c)"
  from st fields ne have "messages st' =
      Map_set (messages st) key
        \<lparr>e_id = key, e_description = None, e_defaultMessage = printed,
         e_loc = (if extractSourceLocation (st_opts st)
                  then Some (p_relative h (process_cwd h) (file_filename st), el_loc el)
                  else None)\<rparr>"
    by (auto simp: storeMessage_present [of ?d message printed] key_def split: if_splits)
  then have stored: "\<exists>e. Map_get (messages st') key = Some e \<and> e_id e = key \<and>
      e_defaultMessage e = printed \<and> e_description e = None"
    by (simp add: Map_get_Map_set)
  have ckey: "case map_of hash ''c'' of
         None \<Rightarrow> key = message
       | Some cPath \<Rightarrow>
           (\<exists>c. getMessageDescriptorValue h cPath = Inr c \<and>
                key = (if c = [] then message else message @ ''##'' @ c))"
  proof (cases "map_of hash ''c''")
    case None
    with evaluateMessageDescriptor_lookup [OF ev, of "''c''"]
    have "map_of evaluated ''c'' = None" by simp
    with None show ?thesis by (simp add: key_def)
  next
    case (Some cPath)
    with evaluateMessageDescriptor_lookup [OF ev, of "''c''"]
    obtain c where "map_of evaluated ''c'' = Some c" "getMessageDescriptorValue h cPath = Inr c"
      by auto
    with Some show ?thesis by (auto simp: key_def)
  qed
  from attr k(2) m(2) printed ckey stored show ?thesis
    by blast
qed

text \<open>
  \<open><T s="Hello" c="foo" />\<close> in the empty store: the entry is stored under \<open>Hello##foo\<close>
  with that id and the \<open>defaultMessage\<close> \<open>Hello\<close>.
\<close>

theorem shorthand_element_stored_entry_witness:
  "\<exists>e. Map_get (messages hello_state) ''Hello##foo'' = Some e \<and> e_id e = ''Hello##foo'' \<and>
       e_defaultMessage e = ''Hello'' \<and> e_description e = None"
proof -
  have 1: "node_name (el_name hello_element) = JString COMPONENT_NAME"
    and 2: "\<not> wasExtracted_el hello_element"
    and 3: "\<not> path_referencesImport sample_host (el_name hello_element)
              (getModuleSourceName (st_opts sample_state)) ''FormattedPlural''"
    and 4: "createMessageDescriptor sample_host
              (map attribute_pair (filter isJSXAttribute (el_attributes hello_element))) True =
            Inr hello_hash"
    and 5: "map_of hello_hash ''defaultMessage'' = Some (StringLiteral ''Hello'')"
    and 6: "JSXOpeningElement sample_host hello_element sample_state =
            (Inr (), tagAsExtracted_el hello_element, hello_state)"
    by (simp_all add: callback_defs element_defs hello_hash_def sample_defs)
  from shorthand_element_stored_entry [OF 1 2 3 4 5 6]
  obtain message printed key where
    m: "getMessageDescriptorValue sample_host (StringLiteral ''Hello'') = Inr message" and
    p: "printICUMessage sample_host message = Inr printed" and
    k: "case map_of hello_hash ''c'' of
          None \<Rightarrow> key = message
        | Some cPath \<Rightarrow>
            (\<exists>c. getMessageDescriptorValue sample_host cPath = Inr c \<and>
                 key = (if c = [] then message else message @ ''##'' @ c))" and
    e: "\<exists>e. Map_get (messages hello_state) key = Some e \<and> e_id e = key \<and>
            e_defaultMessage e = printed \<and> e_description e = None"
    by blast
  from m have message: "message = ''Hello''"
    by (simp add: callback_defs sample_defs)
  from p message have printed: "printed = ''Hello''"
    by (simp add: sample_defs)
  from k message have key: "key = ''Hello##foo''"
    by (simp add: hello_hash_def callback_defs sample_defs)
  from e printed key show ?thesis by simp
qed

text \<open>
  Against C4 as written: the entry extracted from \<open><T s="Hello" c="foo" />\<close> has the id
  \<open>Hello##foo\<close> and the \<open>defaultMessage\<close> \<open>Hello\<close>, which are not equal.
\<close>

theorem shorthand_element_counterexample:
  "messages (snd (snd (JSXOpeningElement sample_host hello_element sample_state))) =
     [(''Hello##foo'',
       \<lparr>e_id = ''Hello##foo'', e_description = None, e_defaultMessage = ''Hello'',
        e_loc = None\<rparr>)] \<and>
   ''Hello##foo'' \<noteq> ''Hello''"
  by (simp add: callback_defs element_defs sample_defs)

section \<open>Storage keys that coincide\<close>

text \<open>
  C1. The claim is that the duplicate check of an insert with a comment compares the
  descriptor with the entry stored under \<open>id ## comment\<close>. The code does not: it looks up
  the bare id and suffixes the key afterwards, so the entry that the insert replaces was
  never compared. Visited after \<open><T s="X##foo" />\<close>, the element \<open><T s="X" c="foo" />\<close>
  replaces the entry stored under \<open>X##foo\<close>, whose \<open>defaultMessage\<close> differs, and no error is
  raised; visited in the other order, the same two elements raise the conflict error.
\<close>

theorem comment_key_overwrites_unchecked:
  "JSXOpeningElement sample_host suffixed_text_element sample_state =
     (Inr (), tagAsExtracted_el suffixed_text_element, suffixed_text_state) \<and>
   JSXOpeningElement sample_host commented_element suffixed_text_state =
     (Inr (), tagAsExtracted_el commented_element, commented_element_state) \<and>
   JSXOpeningElement sample_host commented_element sample_state =
     (Inr (), tagAsExtracted_el commented_element, commented_element_state) \<and>
   JSXOpeningElement sample_host suffixed_text_element commented_element_state =
     (Inl (DuplicateIdConflict ''X##foo''), suffixed_text_element, commented_element_state)"
  by (simp add: callback_defs key_clash_defs sample_defs)

section \<open>The stores the visitor reaches\<close>

text \<open>
  No caller of \<open>storeMessage\<close> passes a description: the call callback builds the
  descriptor without one, and the raw descriptor of a \<open>T\<close> element has no such property.
  With \<open>enforceDescriptions\<close> set, an insert without a description never succeeds, so the
  store, empty at \<open>Program.enter\<close>, stays empty through every visit.
\<close>

lemma storeMessage_opts: "st_opts (snd (storeMessage h d node_loc st)) = st_opts st"
  by (cases "d_id d"; cases "d_defaultMessage d") (auto simp: storeMessage_def Let_def)

lemma storeMessage_enforced_undescribed:
  assumes "enforceDescriptions (st_opts st)" and "d_description d = None"
  shows "messages (snd (storeMessage h d node_loc st)) = messages st"
  using assms
  by (cases "d_id d"; cases "d_defaultMessage d") (auto simp: storeMessage_def Let_def)

lemma shorthand_descriptor_undescribed:
  assumes "createMessageDescriptor h propPaths True = Inr hash"
    and "evaluateMessageDescriptor h hash isJSXSource = Inr evaluated"
  shows "d_description (destructure evaluated) = None"
proof -
  from assms(1) have "reduce_hash h True [] propPaths = Inr hash"
    by (simp add: createMessageDescriptor_def)
  from reduce_hash_shorthand [OF this]
  have keys: "fst ` set hash \<subseteq> {''id'', ''defaultMessage'', ''c''}"
    by simp
  have "map_of hash ''description'' = None"
  proof (rule ccontr)
    assume "map_of hash ''description'' \<noteq> None"
    then obtain p where "map_of hash ''description'' = Some p" by auto
    then have "''description'' \<in> fst ` set hash"
      by (metis map_of_SomeD fst_conv image_eqI)
    with keys show False by auto
  qed
  with evaluateMessageDescriptor_lookup [OF assms(2), of "''description''"]
  show ?thesis by (simp add: destructure_def)
qed

lemma CallExpression_state:
  "snd (snd (CallExpression h call st)) = st \<or>
   (\<exists>message c.
      snd (snd (CallExpression h call st)) =
        snd (storeMessage h
               \<lparr>d_id = Some message, d_description = None, d_defaultMessage = Some message,
                d_c = c\<rparr> (call_loc call) st))"
  by (simp add: CallExpression_def split_def split: list.splits sum.splits option.splits) blast

lemma CallExpression_opts: "st_opts (snd (snd (CallExpression h call st))) = st_opts st"
  using CallExpression_state [of h call st] by (auto simp: storeMessage_opts)

lemma CallExpression_enforced:
  assumes "enforceDescriptions (st_opts st)"
  shows "messages (snd (snd (CallExpression h call st))) = messages st"
  using CallExpression_state [of h call st] assms
  by (auto simp: storeMessage_enforced_undescribed)

lemma JSXOpeningElement_state:
  "snd (snd (JSXOpeningElement h el st)) = st \<or>
   snd (snd (JSXOpeningElement h el st)) =
     st\<lparr>log_warn := log_warn st @ [FormattedPluralWarning (start_line (el_loc el))]\<rparr> \<or>
   (\<exists>hash evaluated.
      createMessageDescriptor h (map attribute_pair (filter isJSXAttribute (el_attributes el))) True
        = Inr hash \<and>
      evaluateMessageDescriptor h hash True = Inr evaluated \<and>
      snd (snd (JSXOpeningElement h el st)) =
        snd (storeMessage h (destructure evaluated) (el_loc el) st))"
proof -
  let ?plural = "path_referencesImport h (el_name el) (getModuleSourceName (st_opts st))
    ''FormattedPlural''"
  let ?pairs = "map attribute_pair (filter isJSXAttribute (el_attributes el))"
  consider (seen) "wasExtracted_el el"
    | (plural) "\<not> wasExtracted_el el" ?plural
    | (other) "\<not> wasExtracted_el el" "\<not> ?plural"
        "node_name (el_name el) \<noteq> JString COMPONENT_NAME"
    | (shorthand) "\<not> wasExtracted_el el" "\<not> ?plural"
        "node_name (el_name el) = JString COMPONENT_NAME"
    by blast
  then show ?thesis
  proof cases
    case seen
    then show ?thesis by (simp add: JSXOpeningElement_def Let_def)
  next
    case plural
    then show ?thesis by (simp add: JSXOpeningElement_def Let_def)
  next
    case other
    then show ?thesis
      by (simp add: JSXOpeningElement_def referencesImport_def COMPONENT_NAMES_def Let_def)
  next
    case shorthand
    show ?thesis
    proof (cases "createMessageDescriptor h ?pairs True")
      case (Inl e)
      with shorthand show ?thesis by (simp add: JSXOpeningElement_def Let_def)
    next
      case (Inr hash)
      show ?thesis
      proof (cases "map_of hash ''defaultMessage''")
        case None
        with shorthand Inr show ?thesis by (simp add: JSXOpeningElement_def Let_def)
      next
        case (Some sPath)
        note run = JSXOpeningElement_shorthand [OF shorthand(3) shorthand(1) shorthand(2) Inr Some]
        show ?thesis
        proof (cases "evaluateMessageDescriptor h hash True")
          case (Inl e)
          with run show ?thesis by simp
        next
          case (Inr evaluated)
          with run have "snd (snd (JSXOpeningElement h el st)) =
              snd (storeMessage h (destructure evaluated) (el_loc el) st)"
            by (simp add: split_def split: sum.splits)
          with \<open>createMessageDescriptor h ?pairs True = Inr hash\<close> Inr show ?thesis
            by blast
        qed
      qed
    qed
  qed
qed

lemma JSXOpeningElement_opts: "st_opts (snd (snd (JSXOpeningElement h el st))) = st_opts st"
  using JSXOpeningElement_state [of h el st] by (auto simp: storeMessage_opts)

lemma JSXOpeningElement_enforced:
  assumes "enforceDescriptions (st_opts st)"
  shows "messages (snd (snd (JSXOpeningElement h el st))) = messages st"
  using JSXOpeningElement_state [of h el st] assms
  by (auto simp: storeMessage_enforced_undescribed shorthand_descriptor_undescribed)


lemma callbacks_keep_store_empty_when_enforced:
  assumes "enforceDescriptions (st_opts st) \<longrightarrow> messages st = []"
  shows "(enforceDescriptions (st_opts (snd (snd (JSXOpeningElement h el st)))) \<longrightarrow>
            messages (snd (snd (JSXOpeningElement h el st))) = []) \<and>
         (enforceDescriptions (st_opts (snd (snd (CallExpression h call st)))) \<longrightarrow>
            messages (snd (snd (CallExpression h call st))) = [])"
  using assms
  by (simp add: JSXOpeningElement_opts CallExpression_opts JSXOpeningElement_enforced
      CallExpression_enforced)



end
